theory Spec2Isabelle
  imports Main "HOL-Library.Sublist"
begin

section \<open>The city facts resolver of \<^verbatim>\<open>src/mcp_agent/agent.py\<close>\<close>

subsection \<open>Python values\<close>

text \<open>
  A Python \<^verbatim>\<open>str\<close> is a sequence of Unicode code points, so a string is a list of
  code point numbers. \<open>S\<close> reads an ASCII literal of the source; the degree sign of the
  weather reports is code point 176 and the apostrophe is code point 39.
\<close>

type_synonym pystr = "nat list"

definition S :: "string \<Rightarrow> pystr" where
  "S s = map of_char s"

definition apostrophe :: pystr where
  "apostrophe = [39]"

definition degree_sign :: pystr where
  "degree_sign = [176]"

text \<open>
  A \<^verbatim>\<open>dict\<close> literal is an association list in the order it is written. No literal
  of this program repeats a key, so the first entry of a key is the dict's entry.
\<close>

type_synonym ('k, 'v) pydict = "('k \<times> 'v) list"

text \<open>
  The exceptions that can leave a tool: \<^verbatim>\<open>UnicodeEncodeError\<close> of a \<^verbatim>\<open>print\<close>
  whose line the output stream cannot encode, and \<^verbatim>\<open>KeyError\<close> of a subscript
  \<^verbatim>\<open>d[k]\<close> outside the \<^verbatim>\<open>try\<close> block, with its key.
\<close>

datatype exn = UnicodeEncodeError | KeyError pystr

text \<open>\<^verbatim>\<open>d.get(k)\<close> gives \<^verbatim>\<open>None\<close> for a missing key; \<^verbatim>\<open>d[k]\<close> raises.\<close>

definition dict_get :: "('k, 'v) pydict \<Rightarrow> 'k \<Rightarrow> 'v option" where
  "dict_get d k = map_of d k"

definition getitem :: "(pystr, 'v) pydict \<Rightarrow> pystr \<Rightarrow> exn + 'v" where
  "getitem d k = (case map_of d k of None \<Rightarrow> Inl (KeyError k) | Some v \<Rightarrow> Inr v)"

subsection \<open>\<^verbatim>\<open>str.lower\<close> and \<^verbatim>\<open>str.replace\<close>\<close>

definition ascii_lower :: "nat \<Rightarrow> nat" where
  "ascii_lower c = (if 65 \<le> c \<and> c \<le> 90 then c + 32 else c)"

definition is_ascii :: "pystr \<Rightarrow> bool" where
  "is_ascii s = list_all (\<lambda>c. c < 128) s"

text \<open>The lone surrogates, code points D800 to DFFF.\<close>

definition is_surrogate :: "nat \<Rightarrow> bool" where
  "is_surrogate c = (55296 \<le> c \<and> c \<le> 57343)"

text \<open>
  \<^verbatim>\<open>s.lower()\<close> maps the string position by position and concatenates what it gets.
  An ASCII code point gives one code point, with the letters A to Z moved to a to z. A
  surrogate has no case mapping and gives itself. For every other code point the
  result, which may be several code points and may depend on the neighbours (the final
  sigma), comes from the interpreter's Unicode database, which is not part of the
  repository: it is the parameter \<open>ucd\<close>, given the string and the position, about
  which nothing is assumed.
\<close>

definition lower_at :: "(pystr \<Rightarrow> nat \<Rightarrow> pystr) \<Rightarrow> pystr \<Rightarrow> nat \<Rightarrow> pystr" where
  "lower_at ucd s i =
     (let c = s ! i
      in if c < 128 then [ascii_lower c]
         else if is_surrogate c then [c]
         else ucd s i)"

definition str_lower :: "(pystr \<Rightarrow> nat \<Rightarrow> pystr) \<Rightarrow> pystr \<Rightarrow> pystr" where
  "str_lower ucd s = concat (map (lower_at ucd s) [0..<length s])"

text \<open>
  \<^verbatim>\<open>s.replace(old, new)\<close>: every occurrence of \<open>old\<close>, found from the left without
  overlap, becomes \<open>new\<close>; an empty \<open>old\<close> matches before every code point and at
  the end.
\<close>

function str_replace :: "pystr \<Rightarrow> pystr \<Rightarrow> pystr \<Rightarrow> pystr" where
  "str_replace s old new =
     (if old = [] then new @ concat (map (\<lambda>c. c # new) s)
      else if s = [] then []
      else if prefix old s then new @ str_replace (drop (length old) s) old new
      else hd s # str_replace (tl s) old new)"
  by pat_completeness auto
termination
  by (relation "measure (\<lambda>(s, old, new). length s)") auto

declare str_replace.simps [simp del]

subsection \<open>The environment and the state of the process\<close>

text \<open>
  What a call reads from outside the program: the Unicode database behind
  \<^verbatim>\<open>str.lower\<close>, the timezone database behind \<^verbatim>\<open>ZoneInfo(key)\<close> and the clock behind
  \<^verbatim>\<open>datetime.datetime.now(tz)\<close>. The last two may raise an instance \<^verbatim>\<open>e\<close> of a
  subclass of \<^verbatim>\<open>Exception\<close>; both are called inside the \<^verbatim>\<open>try\<close> block only, where
  all that is used of \<^verbatim>\<open>e\<close> is the text \<^verbatim>\<open>str(e)\<close>, so a failure is that text. Of
  the \<^verbatim>\<open>datetime\<close> only the fields that \<^verbatim>\<open>strftime('%H:%M')\<close> reads are kept: the
  hour, from 0 to 23, and the minute, from 0 to 59.
\<close>

datatype zone = Zone pystr

record datetime =
  hour :: nat
  minute :: nat

record env =
  unicode_lower :: "pystr \<Rightarrow> nat \<Rightarrow> pystr"
  ZoneInfo :: "pystr \<Rightarrow> pystr + zone"
  datetime_now :: "zone \<Rightarrow> pystr + datetime"

text \<open>
  What the program owns: the module global \<^verbatim>\<open>CITY_DATA\<close>, a dict of dicts that any
  code of the module could mutate, and the lines printed so far.
\<close>

type_synonym city_table = "(pystr, (pystr, pystr) pydict) pydict"

record world =
  table :: city_table
  stdout :: "pystr list"

definition CITY_DATA :: city_table where
  "CITY_DATA =
    [(S ''newyork'',
       [(S ''display_name'', S ''New York''),
        (S ''weather_report'',
           S ''The weather in New York is sunny with a temperature of 45'' @ degree_sign @ S ''F.''),
        (S ''timezone'', S ''America/New_York'')]),
     (S ''london'',
       [(S ''display_name'', S ''London''),
        (S ''weather_report'',
           S ''It's cloudy in London with a temperature of 55'' @ degree_sign @ S ''F.''),
        (S ''timezone'', S ''Europe/London'')]),
     (S ''tokyo'',
       [(S ''display_name'', S ''Tokyo''),
        (S ''weather_report'',
           S ''Tokyo is experiencing light rain and a temperature of 72'' @ degree_sign @ S ''F.''),
        (S ''timezone'', S ''Asia/Tokyo'')])]"

definition initial_world :: world where
  "initial_world = \<lparr>table = CITY_DATA, stdout = []\<rparr>"

text \<open>
  \<^verbatim>\<open>print(line)\<close> writes the line to the standard output, a UTF-8 text stream with
  the strict error handler. A line that holds a lone surrogate cannot be encoded: the
  call raises \<^verbatim>\<open>UnicodeEncodeError\<close> and nothing is written.
\<close>

definition print :: "pystr \<Rightarrow> world \<Rightarrow> exn + world" where
  "print line w =
     (if list_ex is_surrogate line then Inl UnicodeEncodeError
      else Inr (w\<lparr>stdout := stdout w @ [line]\<rparr>))"

subsection \<open>The tool functions\<close>

text \<open>\<^verbatim>\<open>city.lower().replace(" ", "")\<close>, the first step of both tools.\<close>

definition normalize_city :: "env \<Rightarrow> pystr \<Rightarrow> pystr" where
  "normalize_city E city = str_replace (str_lower (unicode_lower E) city) (S '' '') (S '''')"

text \<open>
  In both tools \<^verbatim>\<open>print\<close> comes first, outside any \<^verbatim>\<open>try\<close>: its exception leaves
  the tool. The condition on \<^verbatim>\<open>city_data := CITY_DATA.get(city_normalized)\<close> is the
  truth value of what \<^verbatim>\<open>get\<close> returns: \<^verbatim>\<open>None\<close> and the empty dict are false,
  every other dict is true.
\<close>

definition get_weather ::
  "env \<Rightarrow> pystr \<Rightarrow> world \<Rightarrow> (exn + (pystr, pystr) pydict) \<times> world" where
  \<open>get_weather E city w =
     (case print (S ''. [TOOL] "get_weather" - City: '' @ city @ S ''.'') w of
        Inl e \<Rightarrow> (Inl e, w)
      | Inr w1 \<Rightarrow>
          (let city_normalized = normalize_city E city;
               miss =
                 (Inr [(S ''status'', S ''error''),
                       (S ''error_message'',
                          S ''Sorry, I don't have weather information for '' @ apostrophe
                            @ city @ apostrophe @ S ''.'')],
                  w1)
           in case dict_get (table w1) city_normalized of
                None \<Rightarrow> miss
              | Some city_data \<Rightarrow>
                  if city_data = [] then miss
                  else
                    (case getitem city_data (S ''weather_report'') of
                       Inl e \<Rightarrow> (Inl e, w1)
                     | Inr report \<Rightarrow>
                         (Inr [(S ''status'', S ''success''), (S ''report'', report)], w1))))\<close>

text \<open>
  \<^verbatim>\<open>now.strftime('%H:%M')\<close>: the hour of the 24-hour clock and the minute, each as two
  decimal digits with a leading zero (a digit \<open>d\<close> is code point \<open>48 + d\<close>), for the
  values below 100 that a \<^verbatim>\<open>datetime\<close> holds.
\<close>

definition two_digits :: "nat \<Rightarrow> pystr" where
  "two_digits n = [48 + n div 10, 48 + n mod 10]"

definition strftime_HM :: "datetime \<Rightarrow> pystr" where
  "strftime_HM now = two_digits (hour now) @ S '':'' @ two_digits (minute now)"

text \<open>
  The body of the \<^verbatim>\<open>try\<close> block; the first exception ends it. \<open>Inl\<close> carries the
  text \<^verbatim>\<open>str(e)\<close> of the exception that \<^verbatim>\<open>except Exception as e\<close> catches. For the
  \<^verbatim>\<open>KeyError\<close> of a subscript that text is the \<^verbatim>\<open>repr\<close> of the key; the two keys are
  the literals \<^verbatim>\<open>"timezone"\<close> and \<^verbatim>\<open>"display_name"\<close>, so it is the key between
  apostrophes.
\<close>

definition time_report ::
  "env \<Rightarrow> (pystr, pystr) pydict \<Rightarrow> pystr + (pystr, pystr) pydict" where
  "time_report E rec =
     (case getitem rec (S ''timezone'') of
        Inl e \<Rightarrow> Inl (apostrophe @ S ''timezone'' @ apostrophe)
      | Inr tzname \<Rightarrow>
     (case ZoneInfo E tzname of
        Inl reason \<Rightarrow> Inl reason
      | Inr tz \<Rightarrow>
     (case datetime_now E tz of
        Inl reason \<Rightarrow> Inl reason
      | Inr now \<Rightarrow>
     (case getitem rec (S ''display_name'') of
        Inl e \<Rightarrow> Inl (apostrophe @ S ''display_name'' @ apostrophe)
      | Inr display_name \<Rightarrow>
          Inr [(S ''status'', S ''success''),
               (S ''report'',
                  S ''The current time in '' @ display_name @ S '' is ''
                    @ strftime_HM now @ S ''.'')]))))"

definition get_current_time ::
  "env \<Rightarrow> pystr \<Rightarrow> world \<Rightarrow> (exn + (pystr, pystr) pydict) \<times> world" where
  \<open>get_current_time E city w =
     (case print (S ''. [TOOL] "get_current_time" - City: '' @ city @ S ''.'') w of
        Inl e \<Rightarrow> (Inl e, w)
      | Inr w1 \<Rightarrow>
          (let city_normalized = normalize_city E city;
               miss =
                 (Inr [(S ''status'', S ''error''),
                       (S ''error_message'',
                          S ''Sorry, I don't have timezone information for '' @ apostrophe
                            @ city @ apostrophe @ S ''.'')],
                  w1)
           in case dict_get (table w1) city_normalized of
                None \<Rightarrow> miss
              | Some city_data \<Rightarrow>
                  if city_data = [] then miss
                  else
                    (case time_report E city_data of
                       Inr result \<Rightarrow> (Inr result, w1)
                     | Inl reason \<Rightarrow>
                         (Inr [(S ''status'', S ''error''),
                               (S ''error_message'',
                                  S ''Could not retrieve time for '' @ apostrophe @ city
                                    @ apostrophe @ S ''. Reason: '' @ reason)],
                          w1))))\<close>

subsection \<open>Sequences of tool calls\<close>

text \<open>
  The agent runtime calls the two tools in any order, with any arguments, each call at
  its own moment and so under its own environment.
\<close>

datatype call = GetWeather pystr | GetCurrentTime pystr

fun call_tool :: "env \<Rightarrow> call \<Rightarrow> world \<Rightarrow> (exn + (pystr, pystr) pydict) \<times> world" where
  "call_tool E (GetWeather city) w = get_weather E city w"
| "call_tool E (GetCurrentTime city) w = get_current_time E city w"

fun run :: "(env \<times> call) list \<Rightarrow> world \<Rightarrow> world" where
  "run [] w = w"
| "run ((E, c) # cs) w = run cs (snd (call_tool E c w))"

subsection \<open>The vocabulary of the specification\<close>

text \<open>The two shapes of a result, and the messages of the three error paths.\<close>

definition success_result :: "pystr \<Rightarrow> (pystr, pystr) pydict" where
  "success_result report = [(S ''status'', S ''success''), (S ''report'', report)]"

definition error_result :: "pystr \<Rightarrow> (pystr, pystr) pydict" where
  "error_result message = [(S ''status'', S ''error''), (S ''error_message'', message)]"

definition weather_miss_message :: "pystr \<Rightarrow> pystr" where
  "weather_miss_message city =
     S ''Sorry, I don't have weather information for '' @ apostrophe @ city @ apostrophe @ S ''.''"

definition time_miss_message :: "pystr \<Rightarrow> pystr" where
  "time_miss_message city =
     S ''Sorry, I don't have timezone information for '' @ apostrophe @ city @ apostrophe @ S ''.''"

definition time_failure_message :: "pystr \<Rightarrow> pystr \<Rightarrow> pystr" where
  "time_failure_message city reason =
     S ''Could not retrieve time for '' @ apostrophe @ city @ apostrophe
       @ S ''. Reason: '' @ reason"

fun is_result :: "(pystr, pystr) pydict \<Rightarrow> bool" where
  "is_result [(k1, v1), (k2, v2)] =
     (k1 = S ''status'' \<and>
      (v1 = S ''success'' \<and> k2 = S ''report'' \<or> v1 = S ''error'' \<and> k2 = S ''error_message''))"
| "is_result _ = False"

fun returns_result :: "exn + (pystr, pystr) pydict \<Rightarrow> bool" where
  "returns_result (Inr d) = is_result d"
| "returns_result (Inl e) = False"


text \<open>
  Environments on which the theorems below are exercised: one at five past nine in the
  morning, one a minute before midnight, one whose timezone database lacks
  \<^verbatim>\<open>Asia/Tokyo\<close> (\<^verbatim>\<open>ZoneInfoNotFoundError\<close> is a \<^verbatim>\<open>KeyError\<close>, whose text is its
  message between apostrophes), and one whose clock raises \<^verbatim>\<open>OverflowError\<close>.
\<close>

definition sample_env :: env where
  "sample_env =
     \<lparr>unicode_lower = (\<lambda>s i. [s ! i]),
      ZoneInfo = (\<lambda>key. Inr (Zone key)),
      datetime_now = (\<lambda>tz. Inr \<lparr>hour = 9, minute = 5\<rparr>)\<rparr>"

definition late_env :: env where
  "late_env =
     \<lparr>unicode_lower = (\<lambda>s i. [s ! i]),
      ZoneInfo = (\<lambda>key. Inr (Zone key)),
      datetime_now = (\<lambda>tz. Inr \<lparr>hour = 23, minute = 59\<rparr>)\<rparr>"

definition no_zone_env :: env where
  "no_zone_env =
     \<lparr>unicode_lower = (\<lambda>s i. [s ! i]),
      ZoneInfo = (\<lambda>key. if key = S ''Asia/Tokyo''
                       then Inl (apostrophe @ S ''No time zone found with key Asia/Tokyo''
                                   @ apostrophe)
                       else Inr (Zone key)),
      datetime_now = (\<lambda>tz. Inr \<lparr>hour = 23, minute = 59\<rparr>)\<rparr>"

definition no_clock_env :: env where
  "no_clock_env =
     \<lparr>unicode_lower = (\<lambda>s i. [s ! i]),
      ZoneInfo = (\<lambda>key. Inr (Zone key)),
      datetime_now = (\<lambda>tz. Inl (S ''timestamp out of range for platform time_t''))\<rparr>"

section \<open>Verification\<close>

subsection \<open>Normalization\<close>

lemma str_replace_single: "str_replace s [c] [] = filter (\<lambda>x. x \<noteq> c) s"
proof (induction s)
  case Nil
  show ?case by (simp add: str_replace.simps)
next
  case (Cons a s)
  show ?case
  proof (cases "a = c")
    case True
    then show ?thesis using Cons by (subst str_replace.simps) simp
  next
    case False
    then show ?thesis using Cons by (subst str_replace.simps) simp
  qed
qed

lemma S_eq_iff: "S a = S b \<longleftrightarrow> a = b"
  by (simp add: S_def inj_on_def)

lemma normalize_city_eq:
  "normalize_city E city = filter (\<lambda>x. x \<noteq> 32) (str_lower (unicode_lower E) city)"
  by (simp add: normalize_city_def S_def str_replace_single)

lemma concat_singletons: "concat (map (\<lambda>i. [f i]) xs) = map f xs"
  by (induction xs) simp_all

lemma str_lower_ascii:
  assumes "is_ascii s"
  shows "str_lower ucd s = map ascii_lower s"
proof -
  have each: "lower_at ucd s i = [ascii_lower (s ! i)]" if "i < length s" for i
  proof -
    from assms that have "s ! i < 128"
      by (simp add: is_ascii_def list_all_length)
    then show ?thesis by (simp add: lower_at_def)
  qed
  have "map (lower_at ucd s) [0..<length s] = map (\<lambda>i. [ascii_lower (s ! i)]) [0..<length s]"
    by (rule map_cong) (simp_all add: each)
  then have "str_lower ucd s = concat (map (\<lambda>i. [ascii_lower (s ! i)]) [0..<length s])"
    by (simp only: str_lower_def)
  also have "\<dots> = map (\<lambda>i. ascii_lower (s ! i)) [0..<length s]"
    by (rule concat_singletons)
  also have "\<dots> = map ascii_lower (map (\<lambda>i. s ! i) [0..<length s])"
    by (simp only: map_map comp_def)
  also have "\<dots> = map ascii_lower s"
    by (simp only: map_nth)
  finally show ?thesis .
qed

lemma normalize_city_ascii:
  "is_ascii city \<Longrightarrow> normalize_city E city = filter (\<lambda>x. x \<noteq> 32) (map ascii_lower city)"
  by (simp add: normalize_city_eq str_lower_ascii)

text \<open>A surrogate of the input is still there after normalization.\<close>

lemma surrogate_survives:
  assumes "list_ex is_surrogate city"
  shows "list_ex is_surrogate (normalize_city E city)"
proof -
  from assms obtain i where i: "i < length city" and sur: "is_surrogate (city ! i)"
    by (auto simp: list_ex_length)
  from sur have big: "\<not> city ! i < 128" and not_space: "city ! i \<noteq> 32"
    by (simp_all add: is_surrogate_def)
  from big sur have "lower_at (unicode_lower E) city i = [city ! i]"
    by (simp add: lower_at_def)
  with i have "city ! i \<in> set (str_lower (unicode_lower E) city)"
    by (force simp: str_lower_def)
  with not_space have "city ! i \<in> set (normalize_city E city)"
    by (simp add: normalize_city_eq)
  with sur show ?thesis by (auto simp: list_ex_iff)
qed

lemma literal_no_surrogate: "\<not> list_ex is_surrogate (S s)"
proof -
  have "\<not> is_surrogate (of_char c)" for c :: char
  proof -
    have "of_char c < (256::nat)" by (rule nat_of_char_less_256)
    then have "of_char c < (55296::nat)" by linarith
    then show ?thesis by (simp add: is_surrogate_def)
  qed
  then show ?thesis by (simp add: S_def list_ex_iff)
qed

subsection \<open>The table\<close>

lemma CITY_DATA_records:
  assumes "dict_get CITY_DATA k = Some rec"
  shows "k \<in> {S ''newyork'', S ''london'', S ''tokyo''}"
    and "\<exists>d r t. rec = [(S ''display_name'', d), (S ''weather_report'', r), (S ''timezone'', t)]"
  using assms by (auto simp: dict_get_def CITY_DATA_def split: if_splits)

lemma CITY_DATA_keys:
  "dict_get CITY_DATA k \<noteq> None \<longleftrightarrow> k \<in> {S ''newyork'', S ''london'', S ''tokyo''}"
  by (auto simp: dict_get_def CITY_DATA_def split: if_splits)



lemma hit_no_surrogate:
  assumes "dict_get CITY_DATA (normalize_city E city) = Some rec"
  shows "\<not> list_ex is_surrogate city"
proof
  assume "list_ex is_surrogate city"
  then have "list_ex is_surrogate (normalize_city E city)" by (rule surrogate_survives)
  moreover from CITY_DATA_records(1)[OF assms]
  have "\<exists>s. normalize_city E city = S s" by auto
  ultimately show False using literal_no_surrogate by auto
qed

lemma record_fields:
  assumes "rec = [(S ''display_name'', d), (S ''weather_report'', r), (S ''timezone'', t)]"
  shows "getitem rec (S ''weather_report'') = Inr r"
    and "getitem rec (S ''timezone'') = Inr t"
    and "getitem rec (S ''display_name'') = Inr d"
    and "dict_get rec (S ''weather_report'') = Some r"
    and "dict_get rec (S ''timezone'') = Some t"
    and "dict_get rec (S ''display_name'') = Some d"
    and "rec \<noteq> []"
  using assms by (simp_all add: getitem_def dict_get_def S_eq_iff)

subsection \<open>Printing the log line\<close>

lemma no_surrogate_iff:
  "list_all (\<lambda>c. c < 55296 \<or> 57343 < c) s \<longleftrightarrow> \<not> list_ex is_surrogate s"
  by (induction s) (auto simp: is_surrogate_def)

lemma literal_encodable: "list_all (\<lambda>c. c < 55296 \<or> 57343 < c) (S s)"
  by (simp only: no_surrogate_iff literal_no_surrogate not_False_eq_True)

lemma print_accepts:
  assumes "\<not> list_ex is_surrogate city"
  shows "print (S pre @ city @ S post) w = Inr (w\<lparr>stdout := stdout w @ [S pre @ city @ S post]\<rparr>)"
  using assms literal_no_surrogate by (simp add: print_def)

lemma print_rejects:
  assumes "list_ex is_surrogate city"
  shows "print (S pre @ city @ S post) w = Inl UnicodeEncodeError"
  using assms by (simp add: print_def)

lemma get_weather_raises:
  assumes "list_ex is_surrogate city"
  shows "get_weather E city w = (Inl UnicodeEncodeError, w)"
  by (simp add: get_weather_def print_rejects[OF assms])

lemma get_current_time_raises:
  assumes "list_ex is_surrogate city"
  shows "get_current_time E city w = (Inl UnicodeEncodeError, w)"
  by (simp add: get_current_time_def print_rejects[OF assms])

subsection \<open>The paths of each tool\<close>

lemma get_weather_hit:
  assumes "table w = CITY_DATA" and "dict_get CITY_DATA (normalize_city E city) = Some rec"
    and "dict_get rec (S ''weather_report'') = Some r"
  shows "fst (get_weather E city w) = Inr (success_result r)"
proof -
  from CITY_DATA_records(2)[OF assms(2)] obtain d r' t where
    rec: "rec = [(S ''display_name'', d), (S ''weather_report'', r'), (S ''timezone'', t)]" by blast
  from record_fields(4)[OF rec] assms(3) have "r' = r" by simp
  with record_fields(1)[OF rec] have g: "getitem rec (S ''weather_report'') = Inr r" by simp
  have ne: "rec \<noteq> []" using rec by simp
  show ?thesis using assms(1,2) g ne
    by (simp add: get_weather_def print_accepts[OF hit_no_surrogate[OF assms(2)]] Let_def
          success_result_def)
qed

lemma get_weather_miss:
  assumes "table w = CITY_DATA" and "dict_get CITY_DATA (normalize_city E city) = None"
    and "\<not> list_ex is_surrogate city"
  shows "fst (get_weather E city w) = Inr (error_result (weather_miss_message city))"
  using assms(1,2)
  by (simp add: get_weather_def print_accepts[OF assms(3)] Let_def error_result_def
        weather_miss_message_def)

lemma get_current_time_miss:
  assumes "table w = CITY_DATA" and "dict_get CITY_DATA (normalize_city E city) = None"
    and "\<not> list_ex is_surrogate city"
  shows "fst (get_current_time E city w) = Inr (error_result (time_miss_message city))"
  using assms(1,2)
  by (simp add: get_current_time_def print_accepts[OF assms(3)] Let_def error_result_def
        time_miss_message_def)

lemma get_current_time_hit:
  assumes "table w = CITY_DATA" and "dict_get CITY_DATA (normalize_city E city) = Some rec"
  shows "fst (get_current_time E city w) =
           (case time_report E rec of
              Inr result \<Rightarrow> Inr result
            | Inl reason \<Rightarrow> Inr (error_result (time_failure_message city reason)))"
proof -
  from CITY_DATA_records(2)[OF assms(2)] have ne: "rec \<noteq> []" by auto
  show ?thesis using assms ne
    by (simp add: get_current_time_def print_accepts[OF hit_no_surrogate[OF assms(2)]] Let_def
          error_result_def time_failure_message_def split: sum.splits)
qed

lemma time_report_result:
  assumes "rec = [(S ''display_name'', d), (S ''weather_report'', r), (S ''timezone'', t)]"
  shows "time_report E rec =
     (case ZoneInfo E t of
        Inl reason \<Rightarrow> Inl reason
      | Inr tz \<Rightarrow>
     (case datetime_now E tz of
        Inl reason \<Rightarrow> Inl reason
      | Inr now \<Rightarrow>
          Inr (success_result
                 (S ''The current time in '' @ d @ S '' is '' @ strftime_HM now @ S ''.''))))"
  by (simp add: time_report_def record_fields[OF assms] success_result_def split: sum.splits)

lemma time_report_success:
  assumes "dict_get CITY_DATA k = Some rec" and "time_report E rec = Inr result"
  shows "\<exists>report. result = success_result report"
proof -
  from CITY_DATA_records(2)[OF assms(1)] obtain d r t where
    shape: "rec = [(S ''display_name'', d), (S ''weather_report'', r), (S ''timezone'', t)]"
    by blast
  from assms(2) show ?thesis
    by (auto simp: time_report_result[OF shape] split: sum.splits)
qed

subsection \<open>Messages and result shapes\<close>

lemma sublist_quoted: "sublist city (pre @ apostrophe @ city @ post)"
proof -
  have "pre @ apostrophe @ city @ post = (pre @ apostrophe) @ city @ post" by simp
  then show ?thesis unfolding sublist_def by blast
qed

lemma sublist_weather_miss: "sublist city (weather_miss_message city)"
  unfolding weather_miss_message_def by (rule sublist_quoted)

lemma sublist_time_miss: "sublist city (time_miss_message city)"
  unfolding time_miss_message_def by (rule sublist_quoted)



lemma is_result_success: "is_result (success_result r)"
  by (simp add: success_result_def)

lemma is_result_error: "is_result (error_result m)"
  by (simp add: error_result_def)



subsection \<open>The sample inputs\<close>

lemma sample_lookups:
  "normalize_city sample_env (S ''New York'') = S ''newyork''"
  "normalize_city sample_env (S ''london'') = S ''london''"
  "normalize_city sample_env (S '' Tokyo '') = S ''tokyo''"
  "normalize_city late_env (S ''NEW YORK'') = S ''newyork''"
  "normalize_city sample_env (S ''Paris'') = S ''paris''"
  "normalize_city no_zone_env (S ''Tokyo'') = S ''tokyo''"
  "normalize_city no_clock_env (S ''LONDON'') = S ''london''"
  by (simp_all add: normalize_city_ascii is_ascii_def S_def ascii_lower_def)

lemma table_initial: "table initial_world = CITY_DATA"
  by (simp add: initial_world_def)

lemma CITY_DATA_at:
  "dict_get CITY_DATA (S ''newyork'') = Some
       [(S ''display_name'', S ''New York''),
        (S ''weather_report'',
           S ''The weather in New York is sunny with a temperature of 45'' @ degree_sign @ S ''F.''),
        (S ''timezone'', S ''America/New_York'')]"
  "dict_get CITY_DATA (S ''london'') = Some
       [(S ''display_name'', S ''London''),
        (S ''weather_report'',
           S ''It's cloudy in London with a temperature of 55'' @ degree_sign @ S ''F.''),
        (S ''timezone'', S ''Europe/London'')]"
  "dict_get CITY_DATA (S ''tokyo'') = Some
       [(S ''display_name'', S ''Tokyo''),
        (S ''weather_report'',
           S ''Tokyo is experiencing light rain and a temperature of 72'' @ degree_sign @ S ''F.''),
        (S ''timezone'', S ''Asia/Tokyo'')]"
  "dict_get CITY_DATA (S ''paris'') = None"
  "dict_get CITY_DATA (S '''') = None"
  by (simp_all add: dict_get_def CITY_DATA_def S_def)

lemma weather_report_of:
  "dict_get [(S ''display_name'', d), (S ''weather_report'', r), (S ''timezone'', t)]
     (S ''weather_report'') = Some r' \<longleftrightarrow> r = r'"
  by (simp add: dict_get_def S_eq_iff)

lemma timezone_of:
  "dict_get [(S ''display_name'', d), (S ''weather_report'', r), (S ''timezone'', t)]
     (S ''timezone'') = Some t' \<longleftrightarrow> t = t'"
  by (simp add: dict_get_def S_eq_iff)

lemma display_name_of:
  "dict_get [(S ''display_name'', d), (S ''weather_report'', r), (S ''timezone'', t)]
     (S ''display_name'') = Some d' \<longleftrightarrow> d = d'"
  by (simp add: dict_get_def S_eq_iff)

lemma strftime_HM_digits:
  "strftime_HM now =
     [48 + hour now div 10, 48 + hour now mod 10, 58,
      48 + minute now div 10, 48 + minute now mod 10]"
  by (simp add: strftime_HM_def two_digits_def S_def)

subsection \<open>Weather of a supported city\<close>

text \<open>
  Claim C1. Whenever the normalized form of the input (lowercased, spaces removed) is one
  of the three keys \<^verbatim>\<open>newyork\<close>, \<^verbatim>\<open>london\<close>, \<^verbatim>\<open>tokyo\<close>, \<open>get_weather\<close>
  returns the success result whose report is the \<^verbatim>\<open>weather_report\<close> string stored in
  the table record of that key. Only the normalized form matters, so casing and spaces
  of the input do not.
\<close>

theorem get_weather_supported_city:
  assumes "table w = CITY_DATA"
    and "normalize_city E city \<in> {S ''newyork'', S ''london'', S ''tokyo''}"
  shows "\<exists>rec report.
           dict_get CITY_DATA (normalize_city E city) = Some rec \<and>
           dict_get rec (S ''weather_report'') = Some report \<and>
           fst (get_weather E city w) = Inr (success_result report)"
proof -
  from assms(2) have "dict_get CITY_DATA (normalize_city E city) \<noteq> None"
    by (simp only: CITY_DATA_keys)
  then obtain rec where rec: "dict_get CITY_DATA (normalize_city E city) = Some rec" by blast
  from CITY_DATA_records(2)[OF rec] obtain d r t where
    shape: "rec = [(S ''display_name'', d), (S ''weather_report'', r), (S ''timezone'', t)]"
    by blast
  have field: "dict_get rec (S ''weather_report'') = Some r"
    by (rule record_fields(4)[OF shape])
  from get_weather_hit[OF assms(1) rec field] rec field show ?thesis by blast
qed

theorem get_weather_supported_city_witness:
  "table initial_world = CITY_DATA \<and>
   normalize_city sample_env (S ''New York'') \<in> {S ''newyork'', S ''london'', S ''tokyo''} \<and>
   normalize_city sample_env (S ''london'') \<in> {S ''newyork'', S ''london'', S ''tokyo''} \<and>
   normalize_city sample_env (S '' Tokyo '') \<in> {S ''newyork'', S ''london'', S ''tokyo''} \<and>
   fst (get_weather sample_env (S ''New York'') initial_world) =
     Inr (success_result
       (S ''The weather in New York is sunny with a temperature of 45'' @ degree_sign @ S ''F.'')) \<and>
   fst (get_weather sample_env (S ''london'') initial_world) =
     Inr (success_result
       (S ''It's cloudy in London with a temperature of 55'' @ degree_sign @ S ''F.'')) \<and>
   fst (get_weather sample_env (S '' Tokyo '') initial_world) =
     Inr (success_result
       (S ''Tokyo is experiencing light rain and a temperature of 72'' @ degree_sign @ S ''F.''))"
proof -
  have k1: "normalize_city sample_env (S ''New York'') \<in> {S ''newyork'', S ''london'', S ''tokyo''}"
    by (simp add: sample_lookups)
  have k2: "normalize_city sample_env (S ''london'') \<in> {S ''newyork'', S ''london'', S ''tokyo''}"
    by (simp add: sample_lookups)
  have k3: "normalize_city sample_env (S '' Tokyo '') \<in> {S ''newyork'', S ''london'', S ''tokyo''}"
    by (simp add: sample_lookups)
  have r1: "fst (get_weather sample_env (S ''New York'') initial_world) =
     Inr (success_result
       (S ''The weather in New York is sunny with a temperature of 45'' @ degree_sign @ S ''F.''))"
    using get_weather_supported_city[OF table_initial k1]
    by (auto simp: sample_lookups CITY_DATA_at weather_report_of)
  have r2: "fst (get_weather sample_env (S ''london'') initial_world) =
     Inr (success_result
       (S ''It's cloudy in London with a temperature of 55'' @ degree_sign @ S ''F.''))"
    using get_weather_supported_city[OF table_initial k2]
    by (auto simp: sample_lookups CITY_DATA_at weather_report_of)
  have r3: "fst (get_weather sample_env (S '' Tokyo '') initial_world) =
     Inr (success_result
       (S ''Tokyo is experiencing light rain and a temperature of 72'' @ degree_sign @ S ''F.''))"
    using get_weather_supported_city[OF table_initial k3]
    by (auto simp: sample_lookups CITY_DATA_at weather_report_of)
  show ?thesis using table_initial k1 k2 k3 r1 r2 r3 by blast
qed

subsection \<open>Time of a supported city\<close>

text \<open>
  Claim C2. When the normalized input is a table key, the \<^verbatim>\<open>timezone\<close> of its record
  resolves in the timezone database and the clock gives the time \<open>now\<close> in that zone,
  \<open>get_current_time\<close> returns the success result whose report is exactly
  \<^verbatim>\<open>The current time in <display_name> is <HH:MM>.\<close> with the record's display name,
  where \<^verbatim>\<open>HH\<close> is the hour of \<open>now\<close> on the 24-hour clock and \<^verbatim>\<open>MM\<close> its minute,
  each written as tens digit and units digit, with a colon (code point 58) between.
\<close>

theorem get_current_time_success:
  assumes "table w = CITY_DATA"
    and "dict_get CITY_DATA (normalize_city E city) = Some rec"
    and "dict_get rec (S ''timezone'') = Some tzname"
    and "ZoneInfo E tzname = Inr tz"
    and "datetime_now E tz = Inr now"
    and "hour now < 24" and "minute now < 60"
  shows "\<exists>display_name.
           dict_get rec (S ''display_name'') = Some display_name \<and>
           fst (get_current_time E city w) =
             Inr (success_result
                    (S ''The current time in '' @ display_name @ S '' is ''
                       @ [48 + hour now div 10, 48 + hour now mod 10, 58,
                          48 + minute now div 10, 48 + minute now mod 10]
                       @ S ''.''))"
proof -
  from CITY_DATA_records(2)[OF assms(2)] obtain d r t where
    shape: "rec = [(S ''display_name'', d), (S ''weather_report'', r), (S ''timezone'', t)]"
    by blast
  from assms(3) have t: "t = tzname" by (simp add: shape timezone_of)
  have "time_report E rec =
      Inr (success_result (S ''The current time in '' @ d @ S '' is '' @ strftime_HM now @ S ''.''))"
    by (simp add: time_report_result[OF shape] t assms(4,5))
  with get_current_time_hit[OF assms(1,2)]
  have "fst (get_current_time E city w) =
      Inr (success_result (S ''The current time in '' @ d @ S '' is '' @ strftime_HM now @ S ''.''))"
    by simp
  then have "fst (get_current_time E city w) =
      Inr (success_result
             (S ''The current time in '' @ d @ S '' is ''
                @ [48 + hour now div 10, 48 + hour now mod 10, 58,
                   48 + minute now div 10, 48 + minute now mod 10]
                @ S ''.''))"
    by (simp only: strftime_HM_digits)
  moreover have "dict_get rec (S ''display_name'') = Some d"
    by (rule record_fields(6)[OF shape])
  ultimately show ?thesis by blast
qed

theorem get_current_time_success_witness:
  "table initial_world = CITY_DATA \<and>
   dict_get CITY_DATA (normalize_city sample_env (S '' Tokyo '')) =
     Some [(S ''display_name'', S ''Tokyo''),
           (S ''weather_report'',
              S ''Tokyo is experiencing light rain and a temperature of 72'' @ degree_sign @ S ''F.''),
           (S ''timezone'', S ''Asia/Tokyo'')] \<and>
   ZoneInfo sample_env (S ''Asia/Tokyo'') = Inr (Zone (S ''Asia/Tokyo'')) \<and>
   datetime_now sample_env (Zone (S ''Asia/Tokyo'')) = Inr \<lparr>hour = 9, minute = 5\<rparr> \<and>
   fst (get_current_time sample_env (S '' Tokyo '') initial_world) =
     Inr (success_result (S ''The current time in Tokyo is 09:05.'')) \<and>
   dict_get CITY_DATA (normalize_city late_env (S ''NEW YORK'')) =
     Some [(S ''display_name'', S ''New York''),
           (S ''weather_report'',
              S ''The weather in New York is sunny with a temperature of 45'' @ degree_sign @ S ''F.''),
           (S ''timezone'', S ''America/New_York'')] \<and>
   ZoneInfo late_env (S ''America/New_York'') = Inr (Zone (S ''America/New_York'')) \<and>
   datetime_now late_env (Zone (S ''America/New_York'')) = Inr \<lparr>hour = 23, minute = 59\<rparr> \<and>
   fst (get_current_time late_env (S ''NEW YORK'') initial_world) =
     Inr (success_result (S ''The current time in New York is 23:59.''))"
proof -
  let ?tokyo = "[(S ''display_name'', S ''Tokyo''),
           (S ''weather_report'',
              S ''Tokyo is experiencing light rain and a temperature of 72'' @ degree_sign @ S ''F.''),
           (S ''timezone'', S ''Asia/Tokyo'')]"
  let ?newyork = "[(S ''display_name'', S ''New York''),
           (S ''weather_report'',
              S ''The weather in New York is sunny with a temperature of 45'' @ degree_sign @ S ''F.''),
           (S ''timezone'', S ''America/New_York'')]"
  let ?morning = "\<lparr>hour = 9, minute = 5\<rparr>"
  let ?night = "\<lparr>hour = 23, minute = 59\<rparr>"
  have a2: "dict_get CITY_DATA (normalize_city sample_env (S '' Tokyo '')) = Some ?tokyo"
    by (simp add: sample_lookups CITY_DATA_at)
  have a3: "dict_get ?tokyo (S ''timezone'') = Some (S ''Asia/Tokyo'')"
    by (simp add: timezone_of)
  have a4: "ZoneInfo sample_env (S ''Asia/Tokyo'') = Inr (Zone (S ''Asia/Tokyo''))"
    by (simp add: sample_env_def)
  have a5: "datetime_now sample_env (Zone (S ''Asia/Tokyo'')) = Inr ?morning"
    by (simp add: sample_env_def)
  have a6: "hour ?morning < 24" and a7: "minute ?morning < 60" by simp_all
  have rendered1: "S ''The current time in '' @ S ''Tokyo'' @ S '' is ''
               @ [48 + hour ?morning div 10, 48 + hour ?morning mod 10, 58,
                  48 + minute ?morning div 10, 48 + minute ?morning mod 10] @ S ''.''
             = S ''The current time in Tokyo is 09:05.''"
    by (simp add: S_def)
  have r1: "fst (get_current_time sample_env (S '' Tokyo '') initial_world) =
     Inr (success_result (S ''The current time in Tokyo is 09:05.''))"
    using get_current_time_success[OF table_initial a2 a3 a4 a5 a6 a7] rendered1
    by (auto simp: display_name_of)
  have b2: "dict_get CITY_DATA (normalize_city late_env (S ''NEW YORK'')) = Some ?newyork"
    by (simp add: sample_lookups CITY_DATA_at)
  have b3: "dict_get ?newyork (S ''timezone'') = Some (S ''America/New_York'')"
    by (simp add: timezone_of)
  have b4: "ZoneInfo late_env (S ''America/New_York'') = Inr (Zone (S ''America/New_York''))"
    by (simp add: late_env_def)
  have b5: "datetime_now late_env (Zone (S ''America/New_York'')) = Inr ?night"
    by (simp add: late_env_def)
  have b6: "hour ?night < 24" and b7: "minute ?night < 60" by simp_all
  have rendered2: "S ''The current time in '' @ S ''New York'' @ S '' is ''
               @ [48 + hour ?night div 10, 48 + hour ?night mod 10, 58,
                  48 + minute ?night div 10, 48 + minute ?night mod 10] @ S ''.''
             = S ''The current time in New York is 23:59.''"
    by (simp add: S_def)
  have r2: "fst (get_current_time late_env (S ''NEW YORK'') initial_world) =
     Inr (success_result (S ''The current time in New York is 23:59.''))"
    using get_current_time_success[OF table_initial b2 b3 b4 b5 b6 b7] rendered2
    by (auto simp: display_name_of)
  show ?thesis using table_initial a2 a4 a5 r1 b2 b4 b5 r2 by blast
qed

subsection \<open>Unknown cities\<close>





subsection \<open>Timezone and clock failures\<close>

text \<open>
  Claim C4. When the normalized input is a table key and \<^verbatim>\<open>ZoneInfo\<close> raises on the
  record's timezone identifier, or it resolves and reading the clock raises, an
  exception whose text is \<open>reason\<close>, \<open>get_current_time\<close> returns the error result (the
  exception does not escape) with the message
  \<^verbatim>\<open>Could not retrieve time for '<city>'. Reason: <reason>\<close>, which contains both the
  input text and the text of the exception.
\<close>

theorem get_current_time_failure:
  assumes "table w = CITY_DATA"
    and "dict_get CITY_DATA (normalize_city E city) = Some rec"
    and "dict_get rec (S ''timezone'') = Some tzname"
    and "ZoneInfo E tzname = Inl reason \<or>
         (\<exists>tz. ZoneInfo E tzname = Inr tz \<and> datetime_now E tz = Inl reason)"
  shows "fst (get_current_time E city w) =
           Inr (error_result
                  (S ''Could not retrieve time for '' @ apostrophe @ city @ apostrophe
                     @ S ''. Reason: '' @ reason)) \<and>
         sublist city
           (S ''Could not retrieve time for '' @ apostrophe @ city @ apostrophe
              @ S ''. Reason: '' @ reason) \<and>
         sublist reason
           (S ''Could not retrieve time for '' @ apostrophe @ city @ apostrophe
              @ S ''. Reason: '' @ reason)"
proof -
  let ?msg = "S ''Could not retrieve time for '' @ apostrophe @ city @ apostrophe
                @ S ''. Reason: '' @ reason"
  from CITY_DATA_records(2)[OF assms(2)] obtain d r t where
    shape: "rec = [(S ''display_name'', d), (S ''weather_report'', r), (S ''timezone'', t)]"
    by blast
  from assms(3) have t: "t = tzname" by (simp add: shape timezone_of)
  from assms(4) have "time_report E rec = Inl reason"
    by (auto simp: time_report_result[OF shape] t)
  with get_current_time_hit[OF assms(1,2)]
  have result: "fst (get_current_time E city w) = Inr (error_result ?msg)"
    by (simp add: time_failure_message_def)
  have has_city: "sublist city ?msg"
    by (rule sublist_quoted)
  have "?msg = (S ''Could not retrieve time for '' @ apostrophe @ city @ apostrophe
                  @ S ''. Reason: '') @ reason @ []"
    by simp
  then have has_reason: "sublist reason ?msg"
    unfolding sublist_def by blast
  from result has_city has_reason show ?thesis by blast
qed

theorem get_current_time_failure_witness:
  "table initial_world = CITY_DATA \<and>
   dict_get CITY_DATA (normalize_city no_zone_env (S ''Tokyo'')) =
     Some [(S ''display_name'', S ''Tokyo''),
           (S ''weather_report'',
              S ''Tokyo is experiencing light rain and a temperature of 72'' @ degree_sign @ S ''F.''),
           (S ''timezone'', S ''Asia/Tokyo'')] \<and>
   ZoneInfo no_zone_env (S ''Asia/Tokyo'') =
     Inl ([39] @ S ''No time zone found with key Asia/Tokyo'' @ [39]) \<and>
   fst (get_current_time no_zone_env (S ''Tokyo'') initial_world) =
     Inr (error_result
       (S ''Could not retrieve time for 'Tokyo'. Reason: 'No time zone found with key Asia/Tokyo''
          @ [39])) \<and>
   dict_get CITY_DATA (normalize_city no_clock_env (S ''LONDON'')) =
     Some [(S ''display_name'', S ''London''),
           (S ''weather_report'',
              S ''It's cloudy in London with a temperature of 55'' @ degree_sign @ S ''F.''),
           (S ''timezone'', S ''Europe/London'')] \<and>
   ZoneInfo no_clock_env (S ''Europe/London'') = Inr (Zone (S ''Europe/London'')) \<and>
   datetime_now no_clock_env (Zone (S ''Europe/London'')) =
     Inl (S ''timestamp out of range for platform time_t'') \<and>
   fst (get_current_time no_clock_env (S ''LONDON'') initial_world) =
     Inr (error_result
       (S ''Could not retrieve time for 'LONDON'. Reason: timestamp out of range for platform time_t''))"
proof -
  let ?tokyo = "[(S ''display_name'', S ''Tokyo''),
           (S ''weather_report'',
              S ''Tokyo is experiencing light rain and a temperature of 72'' @ degree_sign @ S ''F.''),
           (S ''timezone'', S ''Asia/Tokyo'')]"
  let ?london = "[(S ''display_name'', S ''London''),
           (S ''weather_report'',
              S ''It's cloudy in London with a temperature of 55'' @ degree_sign @ S ''F.''),
           (S ''timezone'', S ''Europe/London'')]"
  let ?r1 = "[39] @ S ''No time zone found with key Asia/Tokyo'' @ [39]"
  let ?r2 = "S ''timestamp out of range for platform time_t''"
  have a2: "dict_get CITY_DATA (normalize_city no_zone_env (S ''Tokyo'')) = Some ?tokyo"
    by (simp add: sample_lookups CITY_DATA_at)
  have a3: "dict_get ?tokyo (S ''timezone'') = Some (S ''Asia/Tokyo'')"
    by (simp add: timezone_of)
  have a4: "ZoneInfo no_zone_env (S ''Asia/Tokyo'') = Inl ?r1"
    by (simp add: no_zone_env_def apostrophe_def)
  have a5: "ZoneInfo no_zone_env (S ''Asia/Tokyo'') = Inl ?r1 \<or>
      (\<exists>tz. ZoneInfo no_zone_env (S ''Asia/Tokyo'') = Inr tz \<and> datetime_now no_zone_env tz = Inl ?r1)"
    using a4 by blast
  have m1: "S ''Could not retrieve time for '' @ apostrophe @ S ''Tokyo'' @ apostrophe
              @ S ''. Reason: '' @ ?r1 =
      S ''Could not retrieve time for 'Tokyo'. Reason: 'No time zone found with key Asia/Tokyo''
        @ [39]"
    by (simp add: apostrophe_def S_def)
  have r1: "fst (get_current_time no_zone_env (S ''Tokyo'') initial_world) =
     Inr (error_result
       (S ''Could not retrieve time for 'Tokyo'. Reason: 'No time zone found with key Asia/Tokyo''
          @ [39]))"
    using get_current_time_failure[OF table_initial a2 a3 a5] by (simp only: m1)
  have b2: "dict_get CITY_DATA (normalize_city no_clock_env (S ''LONDON'')) = Some ?london"
    by (simp add: sample_lookups CITY_DATA_at)
  have b3: "dict_get ?london (S ''timezone'') = Some (S ''Europe/London'')"
    by (simp add: timezone_of)
  have b4: "ZoneInfo no_clock_env (S ''Europe/London'') = Inr (Zone (S ''Europe/London''))"
    by (simp add: no_clock_env_def)
  have b5: "datetime_now no_clock_env (Zone (S ''Europe/London'')) = Inl ?r2"
    by (simp add: no_clock_env_def)
  have b6: "ZoneInfo no_clock_env (S ''Europe/London'') = Inl ?r2 \<or>
      (\<exists>tz. ZoneInfo no_clock_env (S ''Europe/London'') = Inr tz \<and> datetime_now no_clock_env tz = Inl ?r2)"
    using b4 b5 by blast
  have m2: "S ''Could not retrieve time for '' @ apostrophe @ S ''LONDON'' @ apostrophe
              @ S ''. Reason: '' @ ?r2 =
      S ''Could not retrieve time for 'LONDON'. Reason: timestamp out of range for platform time_t''"
    by (simp add: apostrophe_def S_def)
  have r2: "fst (get_current_time no_clock_env (S ''LONDON'') initial_world) =
     Inr (error_result
       (S ''Could not retrieve time for 'LONDON'. Reason: timestamp out of range for platform time_t''))"
    using get_current_time_failure[OF table_initial b2 b3 b6] by (simp only: m2)
  show ?thesis using table_initial a2 a4 r1 b2 b4 b5 r2 by blast
qed

subsection \<open>The shape of what is returned\<close>

lemma get_weather_total:
  assumes "table w = CITY_DATA" and "\<not> list_ex is_surrogate city"
  shows "(\<exists>report. fst (get_weather E city w) = Inr (success_result report)) \<or>
         fst (get_weather E city w) = Inr (error_result (weather_miss_message city))"
proof (cases "dict_get CITY_DATA (normalize_city E city)")
  case None
  then show ?thesis using get_weather_miss[OF assms(1) _ assms(2)] by blast
next
  case (Some rec)
  from CITY_DATA_records(2)[OF Some] obtain d r t where
    shape: "rec = [(S ''display_name'', d), (S ''weather_report'', r), (S ''timezone'', t)]"
    by blast
  from get_weather_hit[OF assms(1) Some record_fields(4)[OF shape]] show ?thesis by blast
qed

lemma get_current_time_total:
  assumes "table w = CITY_DATA" and "\<not> list_ex is_surrogate city"
  shows "(\<exists>report. fst (get_current_time E city w) = Inr (success_result report)) \<or>
         (\<exists>reason. fst (get_current_time E city w) =
                     Inr (error_result (time_failure_message city reason))) \<or>
         fst (get_current_time E city w) = Inr (error_result (time_miss_message city))"
proof (cases "dict_get CITY_DATA (normalize_city E city)")
  case None
  then show ?thesis using get_current_time_miss[OF assms(1) _ assms(2)] by blast
next
  case (Some rec)
  note hit = get_current_time_hit[OF assms(1) Some]
  show ?thesis
  proof (cases "time_report E rec")
    case (Inl reason)
    with hit show ?thesis by auto
  next
    case (Inr result)
    with time_report_success[OF Some Inr] hit show ?thesis by auto
  qed
qed

lemma get_weather_returned:
  assumes "table w = CITY_DATA" and "fst (get_weather E city w) = Inr d"
  shows "is_result d"
proof (cases "list_ex is_surrogate city")
  case True
  with assms(2) show ?thesis by (simp add: get_weather_raises)
next
  case False
  from get_weather_total[OF assms(1) False, of E] assms(2) show ?thesis
    by (auto simp: is_result_success is_result_error)
qed

lemma get_current_time_returned:
  assumes "table w = CITY_DATA" and "fst (get_current_time E city w) = Inr d"
  shows "is_result d"
proof (cases "list_ex is_surrogate city")
  case True
  with assms(2) show ?thesis by (simp add: get_current_time_raises)
next
  case False
  from get_current_time_total[OF assms(1) False, of E] assms(2) show ?thesis
    by (auto simp: is_result_success is_result_error)
qed

text \<open>
  Claim C5. For every input, every value that \<open>get_weather\<close> or \<open>get_current_time\<close>
  returns is a dict of one of two shapes: \<^verbatim>\<open>status\<close> \<^verbatim>\<open>"success"\<close> with a
  \<^verbatim>\<open>report\<close>, or \<^verbatim>\<open>status\<close> \<^verbatim>\<open>"error"\<close> with an \<^verbatim>\<open>error_message\<close>; no call
  returns anything else. And the calls do return: on every input without a lone
  surrogate code point both tools return such a dict.
\<close>

theorem results_have_two_shapes:
  assumes "table w = CITY_DATA"
  shows "(\<forall>d. fst (get_weather E city w) = Inr d \<longrightarrow> is_result d) \<and>
         (\<forall>d. fst (get_current_time E city w) = Inr d \<longrightarrow> is_result d) \<and>
         (list_all (\<lambda>c. c < 55296 \<or> 57343 < c) city \<longrightarrow>
            returns_result (fst (get_weather E city w)) \<and>
            returns_result (fst (get_current_time E city w)))"
proof (intro conjI allI impI)
  fix d
  assume "fst (get_weather E city w) = Inr d"
  then show "is_result d" by (rule get_weather_returned[OF assms])
next
  fix d
  assume "fst (get_current_time E city w) = Inr d"
  then show "is_result d" by (rule get_current_time_returned[OF assms])
next
  assume "list_all (\<lambda>c. c < 55296 \<or> 57343 < c) city"
  then have ok: "\<not> list_ex is_surrogate city" using no_surrogate_iff by blast
  from get_weather_total[OF assms ok, of E]
  show "returns_result (fst (get_weather E city w))"
    by (auto simp: is_result_success is_result_error)
next
  assume "list_all (\<lambda>c. c < 55296 \<or> 57343 < c) city"
  then have ok: "\<not> list_ex is_surrogate city" using no_surrogate_iff by blast
  from get_current_time_total[OF assms ok, of E]
  show "returns_result (fst (get_current_time E city w))"
    by (auto simp: is_result_success is_result_error)
qed

theorem results_have_two_shapes_witness:
  "table initial_world = CITY_DATA \<and>
   list_all (\<lambda>c. c < 55296 \<or> 57343 < c) (S ''Paris'') \<and>
   list_all (\<lambda>c. c < 55296 \<or> 57343 < c) (S ''Tokyo'') \<and>
   fst (get_weather sample_env (S ''Paris'') initial_world) =
     Inr (error_result (S ''Sorry, I don't have weather information for 'Paris'.'')) \<and>
   is_result (error_result (S ''Sorry, I don't have weather information for 'Paris'.'')) \<and>
   returns_result (fst (get_weather sample_env (S ''Paris'') initial_world)) \<and>
   returns_result (fst (get_current_time sample_env (S ''Paris'') initial_world)) \<and>
   returns_result (fst (get_weather no_zone_env (S ''Tokyo'') initial_world)) \<and>
   returns_result (fst (get_current_time no_zone_env (S ''Tokyo'') initial_world))"
proof -
  have paris: "list_all (\<lambda>c. c < 55296 \<or> 57343 < c) (S ''Paris'')"
    by (rule literal_encodable)
  have tokyo: "list_all (\<lambda>c. c < 55296 \<or> 57343 < c) (S ''Tokyo'')"
    by (rule literal_encodable)
  have none: "dict_get CITY_DATA (normalize_city sample_env (S ''Paris'')) = None"
    by (simp add: sample_lookups CITY_DATA_at)
  have msg: "weather_miss_message (S ''Paris'') =
      S ''Sorry, I don't have weather information for 'Paris'.''"
    by (simp add: weather_miss_message_def apostrophe_def S_def)
  have returned: "fst (get_weather sample_env (S ''Paris'') initial_world) =
     Inr (error_result (S ''Sorry, I don't have weather information for 'Paris'.''))"
    using get_weather_miss[OF table_initial none literal_no_surrogate] by (simp only: msg)
  note at_paris = results_have_two_shapes[OF table_initial, of sample_env "S ''Paris''"]
  note at_tokyo = results_have_two_shapes[OF table_initial, of no_zone_env "S ''Tokyo''"]
  from at_paris returned
  have shape: "is_result (error_result (S ''Sorry, I don't have weather information for 'Paris'.''))"
    by blast
  from at_paris paris
  have p: "returns_result (fst (get_weather sample_env (S ''Paris'') initial_world)) \<and>
           returns_result (fst (get_current_time sample_env (S ''Paris'') initial_world))"
    by blast
  from at_tokyo tokyo
  have t: "returns_result (fst (get_weather no_zone_env (S ''Tokyo'') initial_world)) \<and>
           returns_result (fst (get_current_time no_zone_env (S ''Tokyo'') initial_world))"
    by blast
  from table_initial paris tokyo returned shape p t show ?thesis by blast
qed

subsection \<open>The empty string\<close>

lemma normalize_city_empty: "normalize_city E (S '''') = S ''''"
  by (simp add: normalize_city_ascii is_ascii_def S_def)

text \<open>
  Claim C6. On the empty string both tools return the error result and neither raises.
  Normalization is a total function of the string (\<open>str_lower\<close> and \<open>str_replace\<close>
  have no error value, and the recursion of \<open>str_replace\<close> terminates), and it maps the
  empty string to the empty key.
\<close>

theorem empty_string_error:
  assumes "table w = CITY_DATA"
  shows "normalize_city E (S '''') = S '''' \<and>
         fst (get_weather E (S '''') w) = Inr (error_result (weather_miss_message (S ''''))) \<and>
         fst (get_current_time E (S '''') w) = Inr (error_result (time_miss_message (S '''')))"
proof -
  have none: "dict_get CITY_DATA (normalize_city E (S '''')) = None"
    by (simp add: normalize_city_empty CITY_DATA_at)
  show ?thesis
    using normalize_city_empty get_weather_miss[OF assms none literal_no_surrogate]
      get_current_time_miss[OF assms none literal_no_surrogate]
    by blast
qed

theorem empty_string_error_witness:
  "table initial_world = CITY_DATA \<and>
   fst (get_weather sample_env (S '''') initial_world) =
     Inr (error_result (S ''Sorry, I don't have weather information for ''@ apostrophe @ apostrophe @ S ''.'')) \<and>
   fst (get_current_time sample_env (S '''') initial_world) =
     Inr (error_result (S ''Sorry, I don't have timezone information for '' @ apostrophe @ apostrophe @ S ''.''))"
  using empty_string_error[OF table_initial, of sample_env] table_initial
  by (simp add: weather_miss_message_def time_miss_message_def S_def)

subsection \<open>The table is read-only\<close>

lemma table_print: "print line w = Inr w1 \<Longrightarrow> table w1 = table w"
  by (auto simp: print_def split: if_splits)

lemma table_get_weather: "table (snd (get_weather E city w)) = table w"
  by (auto simp: get_weather_def Let_def table_print split: option.splits sum.splits)

lemma table_get_current_time: "table (snd (get_current_time E city w)) = table w"
  by (auto simp: get_current_time_def Let_def table_print split: option.splits sum.splits)

lemma table_call_tool: "table (snd (call_tool E c w)) = table w"
  by (cases c) (simp_all add: table_get_weather table_get_current_time)

lemma table_run: "table (run cs w) = table w"
proof (induction cs arbitrary: w)
  case Nil
  show ?case by simp
next
  case (Cons a cs)
  obtain E c where a: "a = (E, c)" by (cases a)
  show ?case by (simp add: a Cons.IH table_call_tool)
qed

text \<open>
  Claim C7. The keys of the city table are pairwise different, and after any sequence of
  calls of the two tools, with any arguments and under any environments, the table is
  the literal \<open>CITY_DATA\<close>: no record is added, removed or changed.
\<close>

theorem city_table_immutable:
  "distinct (map fst CITY_DATA) \<and> table (run calls initial_world) = CITY_DATA"
proof
  show "distinct (map fst CITY_DATA)"
    by (simp add: CITY_DATA_def S_eq_iff)
  show "table (run calls initial_world) = CITY_DATA"
    by (simp add: table_run table_initial)
qed

theorem city_table_immutable_witness:
  "table (run [(sample_env, GetWeather (S ''New York'')),
               (no_zone_env, GetCurrentTime (S ''Tokyo'')),
               (no_clock_env, GetCurrentTime (S ''Paris'')),
               (sample_env, GetCurrentTime (S ''london''))] initial_world) = CITY_DATA"
  using city_table_immutable[of "[(sample_env, GetWeather (S ''New York'')),
               (no_zone_env, GetCurrentTime (S ''Tokyo'')),
               (no_clock_env, GetCurrentTime (S ''Paris'')),
               (sample_env, GetCurrentTime (S ''london''))]"]
  by simp

subsection \<open>Determinism of the weather lookup\<close>

text \<open>
  Claim C8. \<open>get_weather\<close> is a function of its input and the fixed table alone: two
  calls with the same input return the same result, report or error message alike,
  whatever the timezone databases, the clocks and the lines printed before in the two
  runs.
\<close>

theorem get_weather_deterministic:
  assumes "table w1 = CITY_DATA" and "table w2 = CITY_DATA"
    and "unicode_lower E1 = unicode_lower E2"
  shows "fst (get_weather E1 city w1) = fst (get_weather E2 city w2)"
proof (cases "list_ex is_surrogate city")
  case True
  then show ?thesis by (simp add: get_weather_raises)
next
  case False
  from assms(3) have same_key: "normalize_city E1 city = normalize_city E2 city"
    by (simp add: normalize_city_eq)
  show ?thesis
  proof (cases "dict_get CITY_DATA (normalize_city E1 city)")
    case None
    then have "dict_get CITY_DATA (normalize_city E2 city) = None" by (simp add: same_key)
    with None show ?thesis
      by (simp add: get_weather_miss[OF assms(1) _ False] get_weather_miss[OF assms(2) _ False])
  next
    case (Some rec)
    then have other: "dict_get CITY_DATA (normalize_city E2 city) = Some rec"
      by (simp add: same_key)
    from CITY_DATA_records(2)[OF Some] obtain d r t where
      shape: "rec = [(S ''display_name'', d), (S ''weather_report'', r), (S ''timezone'', t)]"
      by blast
    note field = record_fields(4)[OF shape]
    show ?thesis
      by (simp add: get_weather_hit[OF assms(1) Some field] get_weather_hit[OF assms(2) other field])
  qed
qed

theorem get_weather_deterministic_witness:
  "table initial_world = CITY_DATA \<and>
   table (run [(no_clock_env, GetCurrentTime (S ''london''))] initial_world) = CITY_DATA \<and>
   unicode_lower sample_env = unicode_lower no_zone_env \<and>
   fst (get_weather sample_env (S ''New York'') initial_world) =
     fst (get_weather no_zone_env (S ''New York'')
            (run [(no_clock_env, GetCurrentTime (S ''london''))] initial_world)) \<and>
   fst (get_weather sample_env (S ''Paris'') initial_world) =
     fst (get_weather no_zone_env (S ''Paris'')
            (run [(no_clock_env, GetCurrentTime (S ''london''))] initial_world))"
proof -
  have h2: "table (run [(no_clock_env, GetCurrentTime (S ''london''))] initial_world) = CITY_DATA"
    by (simp only: table_run table_initial)
  have h3: "unicode_lower sample_env = unicode_lower no_zone_env"
    by (simp add: sample_env_def no_zone_env_def)
  show ?thesis
    using get_weather_deterministic[OF table_initial h2 h3, of "S ''New York''"]
      get_weather_deterministic[OF table_initial h2 h3, of "S ''Paris''"]
      table_initial h2 h3
    by blast
qed

subsection \<open>Both tools hit on the same inputs\<close>





subsection \<open>Inputs of spaces only\<close>

lemma spaces_vanish:
  "list_all (\<lambda>c. c = 32) city \<Longrightarrow> filter (\<lambda>x. x \<noteq> 32) (map ascii_lower city) = []"
  by (induction city) (simp_all add: ascii_lower_def)

lemma spaces_ascii: "list_all (\<lambda>c. c = 32) city \<Longrightarrow> is_ascii city"
  unfolding is_ascii_def by (induction city) simp_all

lemma spaces_no_surrogate: "list_all (\<lambda>c. c = 32) city \<Longrightarrow> \<not> list_ex is_surrogate city"
  by (induction city) (simp_all add: is_surrogate_def)

lemma normalize_city_spaces:
  assumes "list_all (\<lambda>c. c = 32) city"
  shows "normalize_city E city = S ''''"
  by (simp add: normalize_city_ascii[OF spaces_ascii[OF assms]] spaces_vanish[OF assms] S_def)

text \<open>
  Claim C10. A non-empty input made of space characters only normalizes to the empty
  key, which is not in the table, so both tools return the error result, whose message
  contains the input with all its spaces.
\<close>

theorem all_space_input_error:
  assumes "table w = CITY_DATA" and "city \<noteq> []" and "list_all (\<lambda>c. c = 32) city"
  shows "normalize_city E city = S '''' \<and>
         dict_get CITY_DATA (S '''') = None \<and>
         fst (get_weather E city w) = Inr (error_result (weather_miss_message city)) \<and>
         sublist city (weather_miss_message city) \<and>
         fst (get_current_time E city w) = Inr (error_result (time_miss_message city)) \<and>
         sublist city (time_miss_message city)"
proof -
  note key = normalize_city_spaces[OF assms(3), of E]
  note ok = spaces_no_surrogate[OF assms(3)]
  have none: "dict_get CITY_DATA (normalize_city E city) = None"
    by (simp add: key CITY_DATA_at)
  show ?thesis
    using key CITY_DATA_at(5) get_weather_miss[OF assms(1) none ok]
      get_current_time_miss[OF assms(1) none ok] sublist_weather_miss sublist_time_miss
    by blast
qed

theorem all_space_input_error_witness:
  "table initial_world = CITY_DATA \<and> S ''   '' \<noteq> [] \<and> list_all (\<lambda>c. c = 32) (S ''   '') \<and>
   normalize_city sample_env (S ''   '') = S '''' \<and>
   fst (get_weather sample_env (S ''   '') initial_world) =
     Inr (error_result (S ''Sorry, I don't have weather information for '   '.'')) \<and>
   fst (get_current_time sample_env (S ''   '') initial_world) =
     Inr (error_result (S ''Sorry, I don't have timezone information for '   '.'')) \<and>
   sublist (S ''   '') (S ''Sorry, I don't have weather information for '   '.'') \<and>
   sublist (S ''   '') (S ''Sorry, I don't have timezone information for '   '.'')"
proof -
  have h2: "S ''   '' \<noteq> []" by (simp add: S_def)
  have h3: "list_all (\<lambda>c. c = 32) (S ''   '')" by (simp add: S_def)
  have m1: "weather_miss_message (S ''   '') =
      S ''Sorry, I don't have weather information for '   '.''"
    by (simp add: weather_miss_message_def apostrophe_def S_def)
  have m2: "time_miss_message (S ''   '') =
      S ''Sorry, I don't have timezone information for '   '.''"
    by (simp add: time_miss_message_def apostrophe_def S_def)
  show ?thesis
    using all_space_input_error[OF table_initial h2 h3, of sample_env] table_initial h2 h3
    by (simp add: m1 m2)
qed

end
